theory Spec2Isabelle
  imports Main "HOL-Library.Word"
begin

unbundle bit_operations_syntax

section \<open>Data model of the engine bridge (apps/desktop/src/main/engine-bridge/index.ts)\<close>

text \<open>
  Identifiers, paths and error codes are HOL strings: only equality and concatenation
  matter for them. The text of the child's standard output and of the result file is a
  JavaScript string, a sequence of UTF-16 code units, written here as a list of naturals:
  the line splitting, the trimming and the UTF-8 decoding act on code units.
\<close>

type_synonym jsstring = "nat list"

datatype EngineBridgeState = Queued | Running | Succeeded | Failed | Cancelled

datatype ManifestStatus = StatusSucceeded | StatusFailed | StatusCancelled | StatusTimeout

text \<open>\<open>EngineResultManifest\<close>; \<open>errorCode: string | null\<close> is an option.\<close>

record EngineResultManifest =
  status :: ManifestStatus
  m_errorCode :: "string option"
  m_outputDir :: string
  artifacts :: "(string \<times> string list) list"
  engineVersion :: string
  m_backend :: string
  m_method :: string
  startedAt :: string
  endedAt :: string
  durationMs :: int

text \<open>
  \<open>EngineBridgeRequest\<close>. The optional fields are options; the fields that only reach
  the child's command line (backend, method, lang, start, end) are kept as data.
\<close>

record EngineBridgeRequest =
  inputPath :: string
  rq_outputDir :: string
  rq_jobId :: "string option"
  rq_backend :: "string option"
  rq_method :: "string option"
  lang :: "string option"
  rq_start :: "int option"
  rq_end :: "int option"
  timeoutMs :: "int option"

text \<open>
  The \<open>errorCode\<close> member of an event is \<open>undefined\<close> for the queued and running
  events, and \<open>null\<close> or a string for a terminal one.
\<close>

datatype ErrorField = Undefined | Null | Code string

text \<open>
  \<open>EngineBridgeEvent\<close>, over the type \<open>'e\<close> of the values that \<open>JSON.parse\<close> yields for
  a progress line; \<open>progressEvent = None\<close> is \<open>undefined\<close>.
\<close>

record 'e EngineBridgeEvent =
  ev_jobId :: string
  ev_state :: EngineBridgeState
  progressEvent :: "'e option"
  ev_errorCode :: ErrorField

record EngineBridgeResult =
  r_jobId :: string
  r_state :: EngineBridgeState
  r_exitCode :: "int option"
  r_errorCode :: "string option"
  r_manifest :: "EngineResultManifest option"

text \<open>
  \<open>ActiveJob\<close>. The child handle \<open>process\<close> is outside the model; \<open>timeoutRef\<close> holds
  the delay the timer was set with; \<open>killTreeRef\<close> says whether the promise of a
  terminator run is stored; calling \<open>resolve\<close> is logged in the bridge state below.
\<close>

record ActiveJob =
  outputDir :: string
  requestedCancel :: bool
  timedOut :: bool
  settled :: bool
  runningEmitted :: bool
  timeoutRef :: "int option"
  killTreeRef :: bool
  stdoutRemainder :: jsstring

text \<open>A chunk handed to the \<open>data\<close> handler: \<open>Buffer | string\<close>.\<close>

datatype Chunk = Buffer "8 word list" | Text jsstring

datatype IoError = ENOENT | EACCES | EIO

datatype SyntaxError = SyntaxError

text \<open>
  A call of \<open>finishJob\<close> suspended at \<open>await readResultManifest(...)\<close>: the job id, the
  record \<open>activeJob\<close> it holds, the exit code and the spawn error (its message).
  The record is stored as it is when the call suspends. That is exact: after the await
  the call reads \<open>requestedCancel\<close> and \<open>timedOut\<close> only, and these are written by
  \<open>cancel\<close> and by the timeout callback alone, which both return early for a settled
  record and reach a record through the map only.
\<close>

type_synonym Suspended = "string \<times> ActiveJob \<times> int option \<times> string option"

text \<open>
  The state of one \<open>EngineBridge\<close> and of its surroundings:
  \<^item> \<open>activeJobs\<close>, the map of the class;
  \<^item> \<open>sink\<close>, the events handed to \<open>onEvent\<close>, oldest first;
  \<^item> \<open>resolved\<close>, the results handed to \<open>resolve\<close>, oldest first;
  \<^item> \<open>awaiting\<close>, the suspended calls of \<open>finishJob\<close>;
  \<^item> \<open>timers\<close>, the job ids whose timeout timer is set and not cleared;
  \<^item> \<open>killRuns\<close>, the job ids \<open>killProcessTree\<close> was started for, oldest first.
\<close>

record 'e Bridge =
  activeJobs :: "string \<rightharpoonup> ActiveJob"
  sink :: "'e EngineBridgeEvent list"
  resolved :: "EngineBridgeResult list"
  awaiting :: "Suspended list"
  timers :: "string set"
  killRuns :: "string list"

definition emptyBridge :: "'e Bridge" where
  "emptyBridge = \<lparr>activeJobs = Map.empty, sink = [], resolved = [], awaiting = [],
     timers = {}, killRuns = []\<rparr>"

section \<open>Exit codes and the manifest reader\<close>

definition KILL_TREE_ESCALATION_MS :: int where
  "KILL_TREE_ESCALATION_MS = 750"

definition EXIT_CODE_ERROR_MAP :: "int \<rightharpoonup> string" where
  "EXIT_CODE_ERROR_MAP = [1 \<mapsto> ''E_ENGINE_FAILED'', 2 \<mapsto> ''E_INVALID_INPUT'',
     3 \<mapsto> ''E_OUTPUT_UNWRITABLE'', 4 \<mapsto> ''E_CANCELLED'', 5 \<mapsto> ''E_TIMEOUT'']"

definition mapExitCodeToErrorCode :: "int option \<Rightarrow> string" where
  "mapExitCodeToErrorCode exitCode =
     (case exitCode of
        None \<Rightarrow> ''E_ENGINE_FAILED''
      | Some n \<Rightarrow> (case EXIT_CODE_ERROR_MAP n of Some c \<Rightarrow> c | None \<Rightarrow> ''E_ENGINE_FAILED''))"

text \<open>
  \<open>readResultManifest\<close>. \<open>fs.readFile\<close> and \<open>JSON.parse\<close> belong to the runtime and are
  parameters: \<open>readFile\<close> gives the text of a path or rejects, \<open>parse\<close> gives the parsed
  value (\<open>None\<close> for JSON \<open>null\<close>) or throws. Both failures end in the \<open>catch\<close>.
\<close>

definition readResultManifest ::
  "(string \<Rightarrow> IoError + jsstring) \<Rightarrow> (jsstring \<Rightarrow> SyntaxError + EngineResultManifest option) \<Rightarrow>
   string \<Rightarrow> EngineResultManifest option" where
  "readResultManifest readFile parse dir =
     (case readFile (dir @ ''/result.json'') of
        Inl err \<Rightarrow> None
      | Inr raw \<Rightarrow> (case parse raw of Inl err \<Rightarrow> None | Inr m \<Rightarrow> m))"

section \<open>Decoding standard output\<close>

text \<open>
  \<open>Buffer.prototype.toString("utf8")\<close> is the runtime's UTF-8 decoder: every maximal
  ill-formed part of the bytes becomes one U+FFFD, a code point above U+FFFF becomes a
  surrogate pair. The state is the code point under construction, the number of
  continuation bytes still needed, and the bounds of the next continuation byte.
\<close>

type_synonym Utf8State = "nat \<times> nat \<times> 8 word \<times> 8 word"

definition utf8_idle :: Utf8State where
  "utf8_idle = (0, 0, 0x80, 0xBF)"

definition utf16_units :: "nat \<Rightarrow> jsstring" where
  "utf16_units c =
     (if c < 0x10000 then [c]
      else [0xD800 + (c - 0x10000) div 0x400, 0xDC00 + (c - 0x10000) mod 0x400])"

definition utf8_first :: "8 word \<Rightarrow> jsstring \<times> Utf8State" where
  "utf8_first b =
     (if b \<le> 0x7F then ([unat b], utf8_idle)
      else if 0xC2 \<le> b \<and> b \<le> 0xDF then ([], (unat (b AND 0x1F), 1, 0x80, 0xBF))
      else if 0xE0 \<le> b \<and> b \<le> 0xEF then
        ([], (unat (b AND 0x0F), 2, if b = 0xE0 then 0xA0 else 0x80,
              if b = 0xED then 0x9F else 0xBF))
      else if 0xF0 \<le> b \<and> b \<le> 0xF4 then
        ([], (unat (b AND 0x07), 3, if b = 0xF0 then 0x90 else 0x80,
              if b = 0xF4 then 0x8F else 0xBF))
      else ([0xFFFD], utf8_idle))"

fun utf8_decode :: "Utf8State \<Rightarrow> 8 word list \<Rightarrow> jsstring" where
  "utf8_decode (c, need, lo, hi) [] = (if need = 0 then [] else [0xFFFD])"
| "utf8_decode (c, need, lo, hi) (b # bs) =
     (if need = 0 then fst (utf8_first b) @ utf8_decode (snd (utf8_first b)) bs
      else if b < lo \<or> hi < b then
        0xFFFD # fst (utf8_first b) @ utf8_decode (snd (utf8_first b)) bs
      else if need = 1 then
        utf16_units (c * 64 + unat (b AND 0x3F)) @ utf8_decode utf8_idle bs
      else utf8_decode (c * 64 + unat (b AND 0x3F), need - 1, 0x80, 0xBF) bs)"

text \<open>\<open>chunk.toString("utf8")\<close>: a string is returned as it is.\<close>

fun chunk_toString :: "Chunk \<Rightarrow> jsstring" where
  "chunk_toString (Buffer bs) = utf8_decode utf8_idle bs"
| "chunk_toString (Text t) = t"

definition LF :: nat where "LF = 0x0A"
definition CR :: nat where "CR = 0x0D"

text \<open>
  \<open>String.prototype.split(/\r?\n/)\<close>: the text is scanned from the left; where the
  pattern matches (a line feed, together with the carriage return just before it when
  there is one) the piece collected so far is closed. The first argument is that piece.
\<close>

fun split_lines :: "jsstring \<Rightarrow> jsstring \<Rightarrow> jsstring list" where
  "split_lines cur [] = [cur]"
| "split_lines cur [c] = (if c = LF then [cur, []] else [cur @ [c]])"
| "split_lines cur (c # d # cs) =
     (if c = CR \<and> d = LF then cur # split_lines [] cs
      else if c = LF then cur # split_lines [] (d # cs)
      else split_lines (cur @ [c]) (d # cs))"

text \<open>
  \<open>String.prototype.trim\<close> removes the code units of WhiteSpace and LineTerminator
  from both ends.
\<close>

definition js_space :: "nat \<Rightarrow> bool" where
  "js_space c \<longleftrightarrow>
     c \<in> {0x09, 0x0A, 0x0B, 0x0C, 0x0D, 0x20, 0xA0, 0x1680, 0x2028, 0x2029, 0x202F,
          0x205F, 0x3000, 0xFEFF} \<or> (0x2000 \<le> c \<and> c \<le> 0x200A)"

definition trim :: "jsstring \<Rightarrow> jsstring" where
  "trim t = rev (dropWhile js_space (rev (dropWhile js_space t)))"

section \<open>The operations of the bridge\<close>

definition emitState ::
  "string \<Rightarrow> EngineBridgeState \<Rightarrow> 'e option \<Rightarrow> ErrorField \<Rightarrow> 'e Bridge \<Rightarrow> 'e Bridge" where
  "emitState jobId st event errorCode s =
     s\<lparr>sink := sink s @ [\<lparr>ev_jobId = jobId, ev_state = st, progressEvent = event,
        ev_errorCode = errorCode\<rparr>]\<rparr>"

definition emitRunningOnce :: "string \<Rightarrow> 'e Bridge \<Rightarrow> 'e Bridge" where
  "emitRunningOnce jobId s =
     (case activeJobs s jobId of
        None \<Rightarrow> s
      | Some activeJob \<Rightarrow>
          if runningEmitted activeJob then s
          else emitState jobId Running None Undefined
                 (s\<lparr>activeJobs := (activeJobs s)(jobId \<mapsto> activeJob\<lparr>runningEmitted := True\<rparr>)\<rparr>))"

text \<open>The loop of \<open>consumeStdout\<close> over the complete lines.\<close>

fun forward_lines :: "(jsstring \<Rightarrow> 'e option) \<Rightarrow> string \<Rightarrow> jsstring list \<Rightarrow> 'e Bridge \<Rightarrow> 'e Bridge" where
  "forward_lines parse jobId [] s = s"
| "forward_lines parse jobId (line # lines) s =
     (let trimmed = trim line in
      if trimmed = [] then forward_lines parse jobId lines s
      else (case parse trimmed of
              Some parsed \<Rightarrow>
                forward_lines parse jobId lines (emitState jobId Running (Some parsed) Undefined s)
            | None \<Rightarrow> forward_lines parse jobId lines s))"

text \<open>
  \<open>consumeStdout\<close>; \<open>parse\<close> is \<open>JSON.parse\<close> on a line, \<open>None\<close> where it throws.
  \<open>split\<close> returns at least one piece, so \<open>lines.pop()\<close> is the last piece.
\<close>

definition consumeStdout ::
  "(jsstring \<Rightarrow> 'e option) \<Rightarrow> string \<Rightarrow> Chunk \<Rightarrow> 'e Bridge \<Rightarrow> 'e Bridge" where
  "consumeStdout parse jobId chunk s =
     (case activeJobs s jobId of
        None \<Rightarrow> s
      | Some activeJob \<Rightarrow>
          (let nextBuffer = stdoutRemainder activeJob @ chunk_toString chunk;
               pieces = split_lines [] nextBuffer;
               s1 = s\<lparr>activeJobs := (activeJobs s)(jobId \<mapsto>
                       activeJob\<lparr>stdoutRemainder := last pieces\<rparr>)\<rparr>
           in forward_lines parse jobId (butlast pieces) s1))"

text \<open>
  \<open>requestKillTree\<close>: starts the terminator and stores its promise, unless the job is
  unknown, settled, or a promise is stored already.
\<close>

definition requestKillTree :: "string \<Rightarrow> 'e Bridge \<Rightarrow> 'e Bridge" where
  "requestKillTree jobId s =
     (case activeJobs s jobId of
        None \<Rightarrow> s
      | Some activeJob \<Rightarrow>
          if settled activeJob \<or> killTreeRef activeJob then s
          else s\<lparr>activeJobs := (activeJobs s)(jobId \<mapsto> activeJob\<lparr>killTreeRef := True\<rparr>),
                 killRuns := killRuns s @ [jobId]\<rparr>)"

text \<open>The \<open>finally\<close> of the terminator's promise.\<close>

definition killTreeFinally :: "string \<Rightarrow> 'e Bridge \<Rightarrow> 'e Bridge" where
  "killTreeFinally jobId s =
     (case activeJobs s jobId of
        None \<Rightarrow> s
      | Some pendingJob \<Rightarrow>
          s\<lparr>activeJobs := (activeJobs s)(jobId \<mapsto> pendingJob\<lparr>killTreeRef := False\<rparr>)\<rparr>)"

definition cancel :: "string \<Rightarrow> 'e Bridge \<Rightarrow> bool \<times> 'e Bridge" where
  "cancel jobId s =
     (case activeJobs s jobId of
        None \<Rightarrow> (False, s)
      | Some activeJob \<Rightarrow>
          if settled activeJob then (False, s)
          else (True, requestKillTree jobId
                  (s\<lparr>activeJobs := (activeJobs s)(jobId \<mapsto> activeJob\<lparr>requestedCancel := True\<rparr>)\<rparr>)))"

text \<open>The callback of the timeout timer; the timer fires once, if it is still set.\<close>

definition timeoutCallback :: "string \<Rightarrow> 'e Bridge \<Rightarrow> 'e Bridge" where
  "timeoutCallback jobId s =
     (case activeJobs s jobId of
        None \<Rightarrow> s
      | Some pendingJob \<Rightarrow>
          if settled pendingJob then s
          else requestKillTree jobId
                 (s\<lparr>activeJobs := (activeJobs s)(jobId \<mapsto> pendingJob\<lparr>timedOut := True\<rparr>)\<rparr>))"

definition timerFires :: "string \<Rightarrow> 'e Bridge \<Rightarrow> 'e Bridge" where
  "timerFires jobId s =
     (if jobId \<in> timers s then timeoutCallback jobId (s\<lparr>timers := timers s - {jobId}\<rparr>) else s)"

text \<open>
  \<open>run\<close>. The second argument is the value \<open>randomUUID()\<close> returns. Building the command
  line and spawning the child are outside the model; the result is the job id and the
  new state.
\<close>

definition newJob :: "EngineBridgeRequest \<Rightarrow> ActiveJob" where
  "newJob request = \<lparr>outputDir = rq_outputDir request, requestedCancel = False,
     timedOut = False, settled = False, runningEmitted = False, timeoutRef = None,
     killTreeRef = False, stdoutRemainder = []\<rparr>"

definition requestJobId :: "EngineBridgeRequest \<Rightarrow> string \<Rightarrow> string" where
  "requestJobId request uuid = (case rq_jobId request of Some j \<Rightarrow> j | None \<Rightarrow> uuid)"

definition setTimeoutWatcher :: "EngineBridgeRequest \<Rightarrow> string \<Rightarrow> 'e Bridge \<Rightarrow> 'e Bridge" where
  "setTimeoutWatcher request jobId s =
     (case timeoutMs request of
        None \<Rightarrow> s
      | Some t \<Rightarrow>
          if t > 0 then
            (case activeJobs s jobId of
               None \<Rightarrow> s
             | Some activeJob \<Rightarrow>
                 s\<lparr>activeJobs := (activeJobs s)(jobId \<mapsto>
                      activeJob\<lparr>timeoutRef := Some (t + KILL_TREE_ESCALATION_MS)\<rparr>),
                   timers := insert jobId (timers s)\<rparr>)
          else s)"

definition run :: "EngineBridgeRequest \<Rightarrow> string \<Rightarrow> 'e Bridge \<Rightarrow> string \<times> 'e Bridge" where
  "run request uuid s =
     (let jobId = requestJobId request uuid;
          s1 = s\<lparr>activeJobs := (activeJobs s)(jobId \<mapsto> newJob request)\<rparr>;
          s2 = emitState jobId Queued None Undefined s1;
          s3 = emitRunningOnce jobId s2
      in (jobId, setTimeoutWatcher request jobId s3))"

text \<open>
  The precedence of \<open>finishJob\<close>: the terminal state and the error code, from the record,
  the exit code, the spawn error and the manifest. \<open>requestManifest?.errorCode\<close> is
  tested for truth in the failed branch: an empty string is not taken.
\<close>

definition manifestStatus :: "EngineResultManifest option \<Rightarrow> ManifestStatus option" where
  "manifestStatus requestManifest = map_option status requestManifest"

definition manifestErrorCode :: "EngineResultManifest option \<Rightarrow> string option" where
  "manifestErrorCode requestManifest = Option.bind requestManifest m_errorCode"

definition finishJob_outcome ::
  "ActiveJob \<Rightarrow> int option \<Rightarrow> string option \<Rightarrow> EngineResultManifest option \<Rightarrow>
   EngineBridgeState \<times> string option" where
  "finishJob_outcome activeJob exitCode spawnError requestManifest =
     (if exitCode = Some 0 \<and> manifestStatus requestManifest = Some StatusSucceeded then
        (Succeeded, None)
      else if requestedCancel activeJob \<or> exitCode = Some 4
              \<or> manifestStatus requestManifest = Some StatusCancelled then
        (Cancelled,
         if requestedCancel activeJob then Some ''E_CANCELLED''
         else (case manifestErrorCode requestManifest of
                 Some c \<Rightarrow> Some c
               | None \<Rightarrow> Some ''E_CANCELLED''))
      else
        (Failed,
         if timedOut activeJob then Some ''E_TIMEOUT''
         else (case manifestErrorCode requestManifest of
                 Some (x # xs) \<Rightarrow> Some (x # xs)
               | _ \<Rightarrow> if spawnError \<noteq> None then Some ''E_ENGINE_FAILED''
                      else Some (mapExitCodeToErrorCode exitCode))))"

definition errorField :: "string option \<Rightarrow> ErrorField" where
  "errorField errorCode = (case errorCode of None \<Rightarrow> Null | Some c \<Rightarrow> Code c)"

text \<open>
  \<open>finishJob\<close> up to the await: the guard, \<open>settled\<close>, the timer. The call is then
  suspended with the record it holds.
\<close>

definition finishJob_begin :: "string \<Rightarrow> int option \<Rightarrow> string option \<Rightarrow> 'e Bridge \<Rightarrow> 'e Bridge" where
  "finishJob_begin jobId exitCode spawnError s =
     (case activeJobs s jobId of
        None \<Rightarrow> s
      | Some activeJob \<Rightarrow>
          if settled activeJob then s
          else
            (let job' = activeJob\<lparr>settled := True\<rparr> in
             s\<lparr>activeJobs := (activeJobs s)(jobId \<mapsto> job'),
               timers := (if timeoutRef activeJob \<noteq> None then timers s - {jobId} else timers s),
               awaiting := awaiting s @ [(jobId, job', exitCode, spawnError)]\<rparr>))"

text \<open>\<open>finishJob\<close> after the await, with the manifest that was read.\<close>

definition finishJob_resume ::
  "string \<Rightarrow> ActiveJob \<Rightarrow> int option \<Rightarrow> string option \<Rightarrow> EngineResultManifest option \<Rightarrow>
   'e Bridge \<Rightarrow> 'e Bridge" where
  "finishJob_resume jobId activeJob exitCode spawnError requestManifest s =
     (let outcome = finishJob_outcome activeJob exitCode spawnError requestManifest;
          s1 = emitState jobId (fst outcome) None (errorField (snd outcome)) s
      in s1\<lparr>activeJobs := (activeJobs s1)(jobId := None),
            resolved := resolved s1 @ [\<lparr>r_jobId = jobId, r_state = fst outcome,
              r_exitCode = exitCode, r_errorCode = snd outcome, r_manifest = requestManifest\<rparr>]\<rparr>)"

text \<open>The oldest suspended call for a job id, and the list without it.\<close>

fun take_suspended :: "string \<Rightarrow> Suspended list \<Rightarrow> (Suspended \<times> Suspended list) option" where
  "take_suspended jobId [] = None"
| "take_suspended jobId (k # ks) =
     (if fst k = jobId then Some (k, ks)
      else (case take_suspended jobId ks of
              None \<Rightarrow> None
            | Some (k', ks') \<Rightarrow> Some (k', k # ks')))"

section \<open>The callbacks as a transition system\<close>

text \<open>
  What can happen to a bridge, one callback at a time (the runtime runs them one after
  the other): a call of \<open>run\<close> or \<open>cancel\<close>, the timeout timer, the end of a terminator
  run, a chunk of standard output, the \<open>error\<close> and \<open>close\<close> events of the child, and
  the end of the manifest read of a suspended \<open>finishJob\<close>, with the file system and the
  parser of that moment.
\<close>

datatype Trigger =
    CallRun EngineBridgeRequest string
  | CallCancel string
  | TimerFires string
  | KillTreeDone string
  | StdoutData string Chunk
  | ProcessError string string
  | ProcessClose string "int option"
  | ManifestRead string "string \<Rightarrow> IoError + jsstring"
      "jsstring \<Rightarrow> SyntaxError + EngineResultManifest option"

fun step :: "(jsstring \<Rightarrow> 'e option) \<Rightarrow> Trigger \<Rightarrow> 'e Bridge \<Rightarrow> 'e Bridge" where
  "step parse (CallRun request uuid) s = snd (run request uuid s)"
| "step parse (CallCancel jobId) s = snd (cancel jobId s)"
| "step parse (TimerFires jobId) s = timerFires jobId s"
| "step parse (KillTreeDone jobId) s = killTreeFinally jobId s"
| "step parse (StdoutData jobId chunk) s = consumeStdout parse jobId chunk (emitRunningOnce jobId s)"
| "step parse (ProcessError jobId err) s = finishJob_begin jobId None (Some err) s"
| "step parse (ProcessClose jobId exitCode) s = finishJob_begin jobId exitCode None s"
| "step parse (ManifestRead jobId readFile parseManifest) s =
     (case take_suspended jobId (awaiting s) of
        None \<Rightarrow> s
      | Some ((j, activeJob, exitCode, spawnError), rest) \<Rightarrow>
          finishJob_resume j activeJob exitCode spawnError
            (readResultManifest readFile parseManifest (outputDir activeJob))
            (s\<lparr>awaiting := rest\<rparr>))"

fun exec :: "(jsstring \<Rightarrow> 'e option) \<Rightarrow> Trigger list \<Rightarrow> 'e Bridge \<Rightarrow> 'e Bridge" where
  "exec parse [] s = s"
| "exec parse (t # ts) s = exec parse ts (step parse t s)"

section \<open>Concrete inputs\<close>

definition exampleRequest :: EngineBridgeRequest where
  "exampleRequest = \<lparr>inputPath = ''/tmp/input.pdf'', rq_outputDir = ''/tmp/out'',
     rq_jobId = Some ''job-1'', rq_backend = None, rq_method = None, lang = None,
     rq_start = None, rq_end = None, timeoutMs = Some 300\<rparr>"

definition exampleManifest :: "ManifestStatus \<Rightarrow> string option \<Rightarrow> EngineResultManifest" where
  "exampleManifest st code = \<lparr>status = st, m_errorCode = code, m_outputDir = ''/tmp/out'',
     artifacts = [], engineVersion = ''2.7.6'', m_backend = ''pipeline'', m_method = ''txt'',
     startedAt = ''2026-02-25T00:00:00.000Z'', endedAt = ''2026-02-25T00:00:02.000Z'',
     durationMs = 2000\<rparr>"

definition exampleJob :: "bool \<Rightarrow> bool \<Rightarrow> ActiveJob" where
  "exampleJob cancelRequested timeoutFired =
     (newJob exampleRequest)\<lparr>requestedCancel := cancelRequested, timedOut := timeoutFired,
        settled := True, runningEmitted := True\<rparr>"

definition exampleFiles :: "string \<Rightarrow> IoError + jsstring" where
  "exampleFiles path = (if path = ''/tmp/out/result.json'' then Inr [0x7B, 0x7D] else Inl ENOENT)"

definition parsesTo :: "EngineResultManifest \<Rightarrow> jsstring \<Rightarrow> SyntaxError + EngineResultManifest option" where
  "parsesTo m raw = Inr (Some m)"

definition noProgress :: "jsstring \<Rightarrow> unit option" where
  "noProgress line = None"

definition failingRead :: "string \<Rightarrow> IoError + jsstring" where
  "failingRead path = Inl ENOENT"

definition malformed :: "jsstring \<Rightarrow> SyntaxError + EngineResultManifest option" where
  "malformed raw = Inl SyntaxError"

definition exampleTriggers :: "Trigger list" where
  "exampleTriggers =
     [CallCancel ''job-1'', TimerFires ''job-1'', CallCancel ''job-1'',
      ProcessError ''job-1'' ''spawn ENOENT'', CallCancel ''job-1'',
      ProcessClose ''job-1'' None,
      ManifestRead ''job-1'' exampleFiles (parsesTo (exampleManifest StatusFailed None)),
      ProcessClose ''job-1'' (Some 1), CallCancel ''job-1'',
      ManifestRead ''job-1'' exampleFiles (parsesTo (exampleManifest StatusFailed None))]"

section \<open>Observing one job\<close>

text \<open>The events of the complete lines of one chunk, as \<open>consumeStdout\<close> forwards them.\<close>

definition lineEvent :: "(jsstring \<Rightarrow> 'e option) \<Rightarrow> jsstring \<Rightarrow> 'e option" where
  "lineEvent parse line = (if trim line = [] then None else parse (trim line))"

definition progressEvents ::
  "(jsstring \<Rightarrow> 'e option) \<Rightarrow> string \<Rightarrow> jsstring list \<Rightarrow> 'e EngineBridgeEvent list" where
  "progressEvents parse jobId lines =
     map (\<lambda>parsed. \<lparr>ev_jobId = jobId, ev_state = Running, progressEvent = Some parsed,
            ev_errorCode = Undefined\<rparr>)
       (List.map_filter (lineEvent parse) lines)"

text \<open>
  Reading a list of callbacks for one job id: the calls of \<open>run\<close> that use the id, the
  \<open>close\<close> and \<open>error\<close> events of its child, the ends of its manifest reads, and
  whether the child closes or fails and a manifest read for the job ends afterwards.
\<close>

fun triggerRuns :: "string \<Rightarrow> Trigger \<Rightarrow> bool" where
  "triggerRuns j (CallRun request uuid) = (requestJobId request uuid = j)"
| "triggerRuns j t = False"

fun isExit :: "string \<Rightarrow> Trigger \<Rightarrow> bool" where
  "isExit j (ProcessClose j' exitCode) = (j' = j)"
| "isExit j (ProcessError j' err) = (j' = j)"
| "isExit j t = False"

fun isRead :: "string \<Rightarrow> Trigger \<Rightarrow> bool" where
  "isRead j (ManifestRead j' readFile parseManifest) = (j' = j)"
| "isRead j t = False"

fun closesThenReads :: "string \<Rightarrow> Trigger list \<Rightarrow> bool" where
  "closesThenReads j [] = False"
| "closesThenReads j (t # ts) =
     (if isExit j t then list_ex (isRead j) ts else closesThenReads j ts)"

text \<open>
  Reading the logs for one job id: the running event without a progress payload, the
  terminal events, the results, the suspended calls, and the \<open>settled\<close> flag of the
  record in the map.
\<close>

definition bareRunning :: "string \<Rightarrow> 'e EngineBridgeEvent \<Rightarrow> bool" where
  "bareRunning j ev \<longleftrightarrow> ev_jobId ev = j \<and> ev_state ev = Running \<and> progressEvent ev = None"

definition terminalFor :: "string \<Rightarrow> 'e EngineBridgeEvent \<Rightarrow> bool" where
  "terminalFor j ev \<longleftrightarrow>
     ev_jobId ev = j \<and> (ev_state ev = Succeeded \<or> ev_state ev = Failed \<or> ev_state ev = Cancelled)"

definition resultFor :: "string \<Rightarrow> EngineBridgeResult \<Rightarrow> bool" where
  "resultFor j r \<longleftrightarrow> r_jobId r = j"

definition suspendedFor :: "string \<Rightarrow> Suspended \<Rightarrow> bool" where
  "suspendedFor j k \<longleftrightarrow> fst k = j"

definition isSettled :: "string \<Rightarrow> 'e Bridge \<Rightarrow> bool" where
  "isSettled j s = (case activeJobs s j of None \<Rightarrow> False | Some job \<Rightarrow> settled job)"

text \<open>
  The states a bridge goes through under a list of callbacks, and the number of places
  in a list where a predicate turns from false to true.
\<close>

fun states :: "(jsstring \<Rightarrow> 'e option) \<Rightarrow> Trigger list \<Rightarrow> 'e Bridge \<Rightarrow> 'e Bridge list" where
  "states parse [] s = [s]"
| "states parse (t # ts) s = s # states parse ts (step parse t s)"

fun risingEdges :: "('a \<Rightarrow> bool) \<Rightarrow> 'a list \<Rightarrow> nat" where
  "risingEdges P (a # b # xs) = (if \<not> P a \<and> P b then 1 else 0) + risingEdges P (b # xs)"
| "risingEdges P xs = 0"

text \<open>
  For the proof of exactly-once settlement: what is observed of a job (is its record in
  the map and settled, how many terminal events, results and suspended calls it has),
  and the three stages of a job that was run: active, settling (a \<open>finishJob\<close> is
  suspended), done. \<open>advance\<close> says which callbacks move a job to the next stage.
\<close>

definition obs :: "string \<Rightarrow> 'e Bridge \<Rightarrow> bool option \<times> nat \<times> nat \<times> nat" where
  "obs j s = (map_option settled (activeJobs s j),
              length (filter (terminalFor j) (sink s)),
              length (filter (resultFor j) (resolved s)),
              length (filter (suspendedFor j) (awaiting s)))"

definition stageInv :: "string \<Rightarrow> nat \<Rightarrow> nat \<Rightarrow> nat \<Rightarrow> 'e Bridge \<Rightarrow> bool" where
  "stageInv j t0 r0 n s \<longleftrightarrow>
     (n = 1 \<and> obs j s = (Some False, t0, r0, 0))
   \<or> (n = 2 \<and> obs j s = (Some True, t0, r0, 1))
   \<or> (n = 3 \<and> obs j s = (None, t0 + 1, r0 + 1, 0))"

fun advance :: "string \<Rightarrow> nat \<Rightarrow> Trigger \<Rightarrow> nat" where
  "advance j n (ProcessClose j' exitCode) = (if j' = j \<and> n = 1 then 2 else n)"
| "advance j n (ProcessError j' err) = (if j' = j \<and> n = 1 then 2 else n)"
| "advance j n (ManifestRead j' readFile parseManifest) = (if j' = j \<and> n = 2 then 3 else n)"
| "advance j n t = n"

text \<open>
  For the running event: the job is not in the map, or its \<open>runningEmitted\<close> is set.
\<close>

definition runningDone :: "string \<Rightarrow> 'e Bridge \<Rightarrow> bool" where
  "runningDone j s = (case activeJobs s j of None \<Rightarrow> True | Some job \<Rightarrow> runningEmitted job)"

text \<open>
  A stand-in for \<open>JSON.parse\<close> on the lines of the examples: it accepts a JSON string
  literal without escapes and yields its characters, as \<open>JSON.parse\<close> does, and rejects
  every other line.
\<close>

definition parseStringLiteral :: "jsstring \<Rightarrow> jsstring option" where
  "parseStringLiteral t =
     (if 2 \<le> length t \<and> hd t = 0x22 \<and> last t = 0x22
         \<and> list_all (\<lambda>c. c \<noteq> 0x22 \<and> c \<noteq> 0x5C \<and> 0x20 \<le> c) (butlast (tl t))
      then Some (butlast (tl t)) else None)"

definition exampleOutput :: "Trigger list" where
  "exampleOutput =
     [StdoutData ''job-1'' (Text [0x22, 0x61]),
      StdoutData ''job-1'' (Text [0x22, 0x0D]),
      StdoutData ''job-1'' (Buffer [0x0A, 0x6E, 0x6F, 0x0A, 0x20, 0x0A]),
      StdoutData ''job-1'' (Buffer [0x22, 0x62, 0x22, 0x0A, 0x22])]"

definition splitCharacter :: "Trigger list" where
  "splitCharacter =
     [StdoutData ''job-1'' (Buffer [0x22, 0xC3]), StdoutData ''job-1'' (Buffer [0xA9, 0x22, 0x0A])]"

definition wholeCharacter :: "Trigger list" where
  "wholeCharacter = [StdoutData ''job-1'' (Buffer [0x22, 0xC3, 0xA9, 0x22, 0x0A])]"

section \<open>Properties of the reconciliation\<close>

lemma finishJob_resume_sink:
  "sink (finishJob_resume jobId activeJob exitCode spawnError m s) =
     sink s @ [\<lparr>ev_jobId = jobId,
        ev_state = fst (finishJob_outcome activeJob exitCode spawnError m),
        progressEvent = None,
        ev_errorCode = errorField (snd (finishJob_outcome activeJob exitCode spawnError m))\<rparr>]"
  by (simp add: finishJob_resume_def emitState_def Let_def)

lemma finishJob_resume_resolved:
  "resolved (finishJob_resume jobId activeJob exitCode spawnError m s) =
     resolved s @ [\<lparr>r_jobId = jobId,
        r_state = fst (finishJob_outcome activeJob exitCode spawnError m),
        r_exitCode = exitCode,
        r_errorCode = snd (finishJob_outcome activeJob exitCode spawnError m),
        r_manifest = m\<rparr>]"
  by (simp add: finishJob_resume_def emitState_def Let_def)

text \<open>
  Claim C1 as stated fails: a job is run, \<open>cancel\<close> returns true, the child then closes
  with exit code 0 and has written a manifest with status succeeded. The first branch
  of the precedence is tested before \<open>requestedCancel\<close>, so the job settles as succeeded.
\<close>

theorem cancel_precedence_counterexample:
  "fst (cancel ''job-1'' (snd (run exampleRequest ''uuid'' (emptyBridge :: unit Bridge))))
   \<and> map r_state (resolved (exec noProgress
        [CallRun exampleRequest ''uuid'', CallCancel ''job-1'', ProcessClose ''job-1'' (Some 0),
         ManifestRead ''job-1'' exampleFiles (parsesTo (exampleManifest StatusSucceeded None))]
        emptyBridge)) = [Succeeded]
   \<and> requestedCancel (exampleJob True False)
   \<and> finishJob_outcome (exampleJob True False) (Some 0) None
        (Some (exampleManifest StatusSucceeded None)) = (Succeeded, None)"
  by (simp add: emptyBridge_def run_def requestJobId_def exampleRequest_def newJob_def
      emitState_def emitRunningOnce_def setTimeoutWatcher_def cancel_def requestKillTree_def
      finishJob_begin_def finishJob_resume_def readResultManifest_def finishJob_outcome_def
      manifestStatus_def exampleManifest_def errorField_def KILL_TREE_ESCALATION_MS_def Let_def
      timerFires_def timeoutCallback_def exampleFiles_def parsesTo_def exampleJob_def
      manifestErrorCode_def)

text \<open>
  Claim C1, amended: when \<open>requestedCancel\<close> is set at reconciliation, the terminal state
  is cancelled with the error code \<open>E_CANCELLED\<close>, in the result and in the terminal
  event, for every exit code, spawn error and manifest except the combination of exit
  code 0 with a manifest of status succeeded.
\<close>

theorem cancel_precedence_unless_success:
  assumes "requestedCancel activeJob"
    and "\<not> (exitCode = Some 0 \<and> manifestStatus m = Some StatusSucceeded)"
  shows "finishJob_outcome activeJob exitCode spawnError m = (Cancelled, Some ''E_CANCELLED'')
    \<and> r_state (last (resolved (finishJob_resume jobId activeJob exitCode spawnError m s))) = Cancelled
    \<and> r_errorCode (last (resolved (finishJob_resume jobId activeJob exitCode spawnError m s))) = Some ''E_CANCELLED''
    \<and> ev_state (last (sink (finishJob_resume jobId activeJob exitCode spawnError m s))) = Cancelled
    \<and> ev_errorCode (last (sink (finishJob_resume jobId activeJob exitCode spawnError m s))) = Code ''E_CANCELLED''"
proof -
  have out: "finishJob_outcome activeJob exitCode spawnError m = (Cancelled, Some ''E_CANCELLED'')"
    using assms by (simp add: finishJob_outcome_def)
  show ?thesis
    by (simp add: out finishJob_resume_sink finishJob_resume_resolved errorField_def)
qed

text \<open>
  The amended claim C1 at a cancelled job whose child exits with code 1 after writing a
  manifest of status succeeded.
\<close>

theorem cancel_precedence_unless_success_witness:
  "requestedCancel (exampleJob True False)
   \<and> \<not> (Some (1::int) = Some 0 \<and> manifestStatus (Some (exampleManifest StatusSucceeded None)) = Some StatusSucceeded)
   \<and> finishJob_outcome (exampleJob True False) (Some 1) None
        (Some (exampleManifest StatusSucceeded None)) = (Cancelled, Some ''E_CANCELLED'')"
  using cancel_precedence_unless_success [of "exampleJob True False" "Some 1"
      "Some (exampleManifest StatusSucceeded None)" None "''job-1''" "emptyBridge :: unit Bridge"]
  by (simp add: exampleJob_def)

text \<open>
  Claim C2 as stated fails: after the timeout timer has fired, a child that closes with
  exit code 0 and a manifest of status succeeded settles as succeeded, and a child that
  closes with exit code 4 settles as cancelled.
\<close>

theorem timeout_precedence_counterexample:
  "map r_state (resolved (exec noProgress
        [CallRun exampleRequest ''uuid'', TimerFires ''job-1'', ProcessClose ''job-1'' (Some 0),
         ManifestRead ''job-1'' exampleFiles (parsesTo (exampleManifest StatusSucceeded None))]
        emptyBridge)) = [Succeeded]
   \<and> timedOut (exampleJob False True)
   \<and> finishJob_outcome (exampleJob False True) (Some 0) None
        (Some (exampleManifest StatusSucceeded None)) = (Succeeded, None)
   \<and> finishJob_outcome (exampleJob False True) (Some 4) None None = (Cancelled, Some ''E_CANCELLED'')"
  by (simp add: emptyBridge_def run_def requestJobId_def exampleRequest_def newJob_def
      emitState_def emitRunningOnce_def setTimeoutWatcher_def cancel_def requestKillTree_def
      finishJob_begin_def finishJob_resume_def readResultManifest_def finishJob_outcome_def
      manifestStatus_def exampleManifest_def errorField_def KILL_TREE_ESCALATION_MS_def Let_def
      timerFires_def timeoutCallback_def exampleFiles_def parsesTo_def exampleJob_def
      manifestErrorCode_def)

text \<open>
  Claim C2, amended: when \<open>timedOut\<close> is set at reconciliation and neither the succeeded
  branch (exit code 0 with a manifest of status succeeded) nor the cancelled branch
  (\<open>requestedCancel\<close>, exit code 4, or a manifest of status cancelled) applies, the terminal
  state is failed with the error code \<open>E_TIMEOUT\<close>, in the result and in the terminal
  event, whatever error code the manifest carries, whatever the spawn error and the exit
  code are, and also for a manifest of status succeeded.
\<close>

theorem timeout_precedence_in_failed_branch:
  assumes "timedOut activeJob"
    and "\<not> (exitCode = Some 0 \<and> manifestStatus m = Some StatusSucceeded)"
    and "\<not> requestedCancel activeJob" and "exitCode \<noteq> Some 4"
    and "manifestStatus m \<noteq> Some StatusCancelled"
  shows "finishJob_outcome activeJob exitCode spawnError m = (Failed, Some ''E_TIMEOUT'')
    \<and> r_state (last (resolved (finishJob_resume jobId activeJob exitCode spawnError m s))) = Failed
    \<and> r_errorCode (last (resolved (finishJob_resume jobId activeJob exitCode spawnError m s))) = Some ''E_TIMEOUT''
    \<and> ev_state (last (sink (finishJob_resume jobId activeJob exitCode spawnError m s))) = Failed
    \<and> ev_errorCode (last (sink (finishJob_resume jobId activeJob exitCode spawnError m s))) = Code ''E_TIMEOUT''"
proof -
  have out: "finishJob_outcome activeJob exitCode spawnError m = (Failed, Some ''E_TIMEOUT'')"
    using assms by (simp add: finishJob_outcome_def)
  show ?thesis
    by (simp add: out finishJob_resume_sink finishJob_resume_resolved errorField_def)
qed

text \<open>
  The amended claim C2 at a timed-out job whose child was killed (no exit code) after
  writing a manifest of status succeeded.
\<close>

theorem timeout_precedence_in_failed_branch_witness:
  "timedOut (exampleJob False True)
   \<and> finishJob_outcome (exampleJob False True) None None
        (Some (exampleManifest StatusSucceeded None)) = (Failed, Some ''E_TIMEOUT'')"
  using timeout_precedence_in_failed_branch [of "exampleJob False True" None
      "Some (exampleManifest StatusSucceeded None)" None "''job-1''" "emptyBridge :: unit Bridge"]
  by (simp add: exampleJob_def manifestStatus_def exampleManifest_def)

text \<open>
  Claim C3: the terminal state computed by \<open>finishJob\<close> is succeeded exactly when the exit
  code is 0 and the manifest is not null and has status succeeded; the result and the
  terminal event carry that state, and when it is succeeded their error code is null.
\<close>

theorem success_purity:
  "(fst (finishJob_outcome activeJob exitCode spawnError m) = Succeeded)
     = (exitCode = Some 0 \<and> (\<exists>mf. m = Some mf \<and> status mf = StatusSucceeded))
   \<and> r_state (last (resolved (finishJob_resume jobId activeJob exitCode spawnError m s)))
       = fst (finishJob_outcome activeJob exitCode spawnError m)
   \<and> ev_state (last (sink (finishJob_resume jobId activeJob exitCode spawnError m s)))
       = fst (finishJob_outcome activeJob exitCode spawnError m)
   \<and> (fst (finishJob_outcome activeJob exitCode spawnError m) = Succeeded \<longrightarrow>
        r_errorCode (last (resolved (finishJob_resume jobId activeJob exitCode spawnError m s))) = None
      \<and> ev_errorCode (last (sink (finishJob_resume jobId activeJob exitCode spawnError m s))) = Null)"
  by (auto simp add: finishJob_resume_sink finishJob_resume_resolved finishJob_outcome_def
      manifestStatus_def errorField_def split: option.splits list.splits)

text \<open>
  Claim C3 at exit code 0 with a manifest of status succeeded.
\<close>

theorem success_purity_witness:
  "fst (finishJob_outcome (exampleJob False False) (Some 0) None
          (Some (exampleManifest StatusSucceeded None))) = Succeeded
   \<and> r_errorCode (last (resolved (finishJob_resume ''job-1'' (exampleJob False False) (Some 0) None
          (Some (exampleManifest StatusSucceeded None)) (emptyBridge :: unit Bridge)))) = None
   \<and> ev_errorCode (last (sink (finishJob_resume ''job-1'' (exampleJob False False) (Some 0) None
          (Some (exampleManifest StatusSucceeded None)) (emptyBridge :: unit Bridge)))) = Null"
  using success_purity [of "exampleJob False False" "Some 0" None
      "Some (exampleManifest StatusSucceeded None)" "''job-1''" "emptyBridge :: unit Bridge"]
  by (simp add: exampleManifest_def)

text \<open>
  Claim C5: in the result and in the terminal event of \<open>finishJob\<close> the error code is
  not null exactly when the state is not succeeded (and the event's error code is never
  left undefined); in the cancelled branch a manifest without an error code falls back
  to \<open>E_CANCELLED\<close>.
\<close>

theorem errorCode_iff_not_succeeded:
  "(r_errorCode (last (resolved (finishJob_resume jobId activeJob exitCode spawnError m s))) \<noteq> None)
     = (r_state (last (resolved (finishJob_resume jobId activeJob exitCode spawnError m s))) \<noteq> Succeeded)
   \<and> (ev_errorCode (last (sink (finishJob_resume jobId activeJob exitCode spawnError m s))) \<noteq> Null)
     = (ev_state (last (sink (finishJob_resume jobId activeJob exitCode spawnError m s))) \<noteq> Succeeded)
   \<and> ev_errorCode (last (sink (finishJob_resume jobId activeJob exitCode spawnError m s))) \<noteq> Undefined
   \<and> (fst (finishJob_outcome activeJob exitCode spawnError m) = Cancelled
        \<and> manifestErrorCode m = None \<longrightarrow>
      snd (finishJob_outcome activeJob exitCode spawnError m) = Some ''E_CANCELLED'')"
  by (auto simp add: finishJob_resume_sink finishJob_resume_resolved finishJob_outcome_def
      errorField_def split: option.splits list.splits if_splits)

text \<open>
  Claim C5 at exit code 4 with a manifest of status cancelled and a null error code.
\<close>

theorem errorCode_iff_not_succeeded_witness:
  "fst (finishJob_outcome (exampleJob False False) (Some 4) None
          (Some (exampleManifest StatusCancelled None))) = Cancelled
   \<and> manifestErrorCode (Some (exampleManifest StatusCancelled None)) = None
   \<and> snd (finishJob_outcome (exampleJob False False) (Some 4) None
          (Some (exampleManifest StatusCancelled None))) = Some ''E_CANCELLED''"
  using errorCode_iff_not_succeeded [of "''job-1''" "exampleJob False False" "Some 4" None
      "Some (exampleManifest StatusCancelled None)" "emptyBridge :: unit Bridge"]
  by (simp add: exampleManifest_def manifestErrorCode_def finishJob_outcome_def exampleJob_def newJob_def manifestStatus_def)

text \<open>
  Claim C7 as stated fails: the manifest's error code is tested for truth, not against
  null. A manifest whose error code is the empty string (not null) is passed over, and
  with exit code 2 the job fails with \<open>E_INVALID_INPUT\<close>.
\<close>

theorem failed_code_counterexample:
  "fst (finishJob_outcome (exampleJob False False) (Some 2) None
          (Some (exampleManifest StatusFailed (Some '''')))) = Failed
   \<and> \<not> timedOut (exampleJob False False)
   \<and> manifestErrorCode (Some (exampleManifest StatusFailed (Some ''''))) = Some ''''
   \<and> snd (finishJob_outcome (exampleJob False False) (Some 2) None
          (Some (exampleManifest StatusFailed (Some '''')))) = Some ''E_INVALID_INPUT''"
  by (simp add: finishJob_outcome_def manifestStatus_def manifestErrorCode_def
      exampleManifest_def exampleJob_def newJob_def mapExitCodeToErrorCode_def
      EXIT_CODE_ERROR_MAP_def)

text \<open>
  Claim C7, amended: for a job that settles as failed the error code is \<open>E_TIMEOUT\<close>
  if \<open>timedOut\<close> is set; otherwise the manifest's error code, verbatim, if it is neither
  null nor the empty string; otherwise \<open>E_ENGINE_FAILED\<close> if a spawn error occurred;
  otherwise the exit code mapped by the table 1, 2, 3, 4, 5 to \<open>E_ENGINE_FAILED\<close>,
  \<open>E_INVALID_INPUT\<close>, \<open>E_OUTPUT_UNWRITABLE\<close>, \<open>E_CANCELLED\<close>, \<open>E_TIMEOUT\<close>, and to
  \<open>E_ENGINE_FAILED\<close> for any other or missing exit code.
\<close>

theorem failed_code_priority:
  assumes "fst (finishJob_outcome activeJob exitCode spawnError m) = Failed"
  shows "snd (finishJob_outcome activeJob exitCode spawnError m) = Some
     (if timedOut activeJob then ''E_TIMEOUT''
      else if manifestErrorCode m \<noteq> None \<and> manifestErrorCode m \<noteq> Some ''''
        then the (manifestErrorCode m)
      else if spawnError \<noteq> None then ''E_ENGINE_FAILED''
      else if exitCode = Some 1 then ''E_ENGINE_FAILED''
      else if exitCode = Some 2 then ''E_INVALID_INPUT''
      else if exitCode = Some 3 then ''E_OUTPUT_UNWRITABLE''
      else if exitCode = Some 4 then ''E_CANCELLED''
      else if exitCode = Some 5 then ''E_TIMEOUT''
      else ''E_ENGINE_FAILED'')"
proof -
  have branch: "\<not> (exitCode = Some 0 \<and> manifestStatus m = Some StatusSucceeded)"
    "\<not> (requestedCancel activeJob \<or> exitCode = Some 4
        \<or> manifestStatus m = Some StatusCancelled)"
    using assms by (auto simp add: finishJob_outcome_def split: if_splits)
  have table: "mapExitCodeToErrorCode exitCode =
     (if exitCode = Some 1 then ''E_ENGINE_FAILED''
      else if exitCode = Some 2 then ''E_INVALID_INPUT''
      else if exitCode = Some 3 then ''E_OUTPUT_UNWRITABLE''
      else if exitCode = Some 4 then ''E_CANCELLED''
      else if exitCode = Some 5 then ''E_TIMEOUT''
      else ''E_ENGINE_FAILED'')"
    by (cases exitCode) (simp_all add: mapExitCodeToErrorCode_def EXIT_CODE_ERROR_MAP_def)
  have core: "snd (finishJob_outcome activeJob exitCode spawnError m) = Some
     (if timedOut activeJob then ''E_TIMEOUT''
      else if manifestErrorCode m \<noteq> None \<and> manifestErrorCode m \<noteq> Some ''''
        then the (manifestErrorCode m)
      else if spawnError \<noteq> None then ''E_ENGINE_FAILED''
      else mapExitCodeToErrorCode exitCode)"
  proof (cases "manifestErrorCode m")
    case None
    then show ?thesis using branch by (auto simp add: finishJob_outcome_def)
  next
    case (Some c)
    then show ?thesis using branch
      by (cases c) (auto simp add: finishJob_outcome_def)
  qed
  show ?thesis
    by (rule trans [OF core]) (simp only: table)
qed

text \<open>
  The amended claim C7 at exit code 1 with a manifest that reports
  \<open>E_OUTPUT_UNWRITABLE\<close>: the manifest's code wins over the table.
\<close>

theorem failed_code_priority_witness:
  "fst (finishJob_outcome (exampleJob False False) (Some 1) None
          (Some (exampleManifest StatusFailed (Some ''E_OUTPUT_UNWRITABLE'')))) = Failed
   \<and> snd (finishJob_outcome (exampleJob False False) (Some 1) None
          (Some (exampleManifest StatusFailed (Some ''E_OUTPUT_UNWRITABLE''))))
       = Some ''E_OUTPUT_UNWRITABLE''"
  using failed_code_priority [of "exampleJob False False" "Some 1" None
      "Some (exampleManifest StatusFailed (Some ''E_OUTPUT_UNWRITABLE''))"]
  by (simp add: finishJob_outcome_def manifestStatus_def manifestErrorCode_def
      exampleManifest_def exampleJob_def newJob_def)

section \<open>Cancellation and the manifest reader\<close>

text \<open>
  Claim C8: \<open>cancel\<close> returns false exactly when the job is not in the active map or is
  settled, and then leaves the whole state as it is. Otherwise it returns true, sets
  \<open>requestedCancel\<close>, and starts a terminator run unless the promise of one is stored
  (\<open>killTreeRef\<close>), which it then is; it resolves nothing, emits nothing, suspends no
  \<open>finishJob\<close>, leaves \<open>settled\<close> false and touches no other job.
\<close>

theorem cancel_contract:
  "(\<not> fst (cancel jobId s))
     = (activeJobs s jobId = None \<or> (\<exists>job. activeJobs s jobId = Some job \<and> settled job))
   \<and> (\<not> fst (cancel jobId s) \<longrightarrow> snd (cancel jobId s) = s)
   \<and> (\<forall>job. activeJobs s jobId = Some job \<and> \<not> settled job \<longrightarrow>
        fst (cancel jobId s)
      \<and> activeJobs (snd (cancel jobId s)) jobId
          = Some (job\<lparr>requestedCancel := True, killTreeRef := True\<rparr>)
      \<and> killRuns (snd (cancel jobId s))
          = (if killTreeRef job then killRuns s else killRuns s @ [jobId])
      \<and> resolved (snd (cancel jobId s)) = resolved s
      \<and> sink (snd (cancel jobId s)) = sink s
      \<and> awaiting (snd (cancel jobId s)) = awaiting s
      \<and> timers (snd (cancel jobId s)) = timers s
      \<and> (\<forall>other. other \<noteq> jobId \<longrightarrow>
            activeJobs (snd (cancel jobId s)) other = activeJobs s other))"
  by (auto simp add: cancel_def requestKillTree_def split: option.splits)

text \<open>
  Claim C8 on a job just run: the first cancel starts the terminator and resolves
  nothing, a second cancel while that run is in flight starts no other; a cancel for an
  unknown job id returns false.
\<close>

theorem cancel_contract_witness:
  "activeJobs (snd (run exampleRequest ''uuid'' (emptyBridge :: unit Bridge))) ''job-1''
     = Some ((newJob exampleRequest)\<lparr>runningEmitted := True, timeoutRef := Some 1050\<rparr>)
   \<and> fst (cancel ''job-1'' (snd (run exampleRequest ''uuid'' (emptyBridge :: unit Bridge))))
   \<and> killRuns (snd (cancel ''job-1'' (snd (run exampleRequest ''uuid'' (emptyBridge :: unit Bridge)))))
       = [''job-1'']
   \<and> resolved (snd (cancel ''job-1'' (snd (run exampleRequest ''uuid'' (emptyBridge :: unit Bridge)))))
       = []
   \<and> fst (cancel ''job-1''
        (snd (cancel ''job-1'' (snd (run exampleRequest ''uuid'' (emptyBridge :: unit Bridge))))))
   \<and> killRuns (snd (cancel ''job-1''
        (snd (cancel ''job-1'' (snd (run exampleRequest ''uuid'' (emptyBridge :: unit Bridge)))))))
       = [''job-1'']
   \<and> \<not> fst (cancel ''job-2'' (snd (run exampleRequest ''uuid'' (emptyBridge :: unit Bridge))))"
proof -
  let ?s1 = "snd (run exampleRequest ''uuid'' (emptyBridge :: unit Bridge))"
  let ?job = "(newJob exampleRequest)\<lparr>runningEmitted := True, timeoutRef := Some 1050\<rparr>"
  have s1: "activeJobs ?s1 ''job-1'' = Some ?job" "activeJobs ?s1 ''job-2'' = None"
    "killRuns ?s1 = []" "resolved ?s1 = []"
    by (simp_all add: run_def requestJobId_def exampleRequest_def newJob_def emitState_def
        emitRunningOnce_def setTimeoutWatcher_def emptyBridge_def KILL_TREE_ESCALATION_MS_def
        Let_def)
  have flags: "\<not> settled ?job" "\<not> killTreeRef ?job"
    by (simp_all add: newJob_def)
  note first = cancel_contract [of "''job-1''" ?s1]
  note other = cancel_contract [of "''job-2''" ?s1]
  from first s1 flags have a:
    "fst (cancel ''job-1'' ?s1)"
    "activeJobs (snd (cancel ''job-1'' ?s1)) ''job-1''
       = Some (?job\<lparr>requestedCancel := True, killTreeRef := True\<rparr>)"
    "killRuns (snd (cancel ''job-1'' ?s1)) = [''job-1'']"
    "resolved (snd (cancel ''job-1'' ?s1)) = []"
    by auto
  note second = cancel_contract [of "''job-1''" "snd (cancel ''job-1'' ?s1)"]
  from second a flags have b:
    "fst (cancel ''job-1'' (snd (cancel ''job-1'' ?s1)))"
    "killRuns (snd (cancel ''job-1'' (snd (cancel ''job-1'' ?s1)))) = [''job-1'']"
    by auto
  from other s1 have c: "\<not> fst (cancel ''job-2'' ?s1)"
    by simp
  from s1 a b c show ?thesis by simp
qed

text \<open>
  Claim C9: \<open>readResultManifest\<close> reads \<open>result.json\<close> inside the output directory and
  parses it; its result is null when the read fails and when the parse fails, and the
  parsed value otherwise; no error leaves it (its result type has none). A suspended
  \<open>finishJob\<close> whose read gives null goes on: it emits the terminal event and resolves
  the promise with the outcome computed for a null manifest.
\<close>

theorem manifest_reader_null_on_failure:
  "(\<forall>err. readFile (dir @ ''/result.json'') = Inl err \<longrightarrow>
       readResultManifest readFile parse dir = None)
   \<and> (\<forall>raw err. readFile (dir @ ''/result.json'') = Inr raw \<and> parse raw = Inl err \<longrightarrow>
       readResultManifest readFile parse dir = None)
   \<and> (\<forall>raw m. readFile (dir @ ''/result.json'') = Inr raw \<and> parse raw = Inr m \<longrightarrow>
       readResultManifest readFile parse dir = m)
   \<and> (\<forall>job exitCode spawnError rest.
        take_suspended jobId (awaiting s) = Some ((jobId, job, exitCode, spawnError), rest)
        \<and> readResultManifest readFile parse (outputDir job) = None \<longrightarrow>
        resolved (step p (ManifestRead jobId readFile parse) s)
          = resolved s @ [\<lparr>r_jobId = jobId,
              r_state = fst (finishJob_outcome job exitCode spawnError None),
              r_exitCode = exitCode,
              r_errorCode = snd (finishJob_outcome job exitCode spawnError None),
              r_manifest = None\<rparr>]
        \<and> sink (step p (ManifestRead jobId readFile parse) s)
          = sink s @ [\<lparr>ev_jobId = jobId,
              ev_state = fst (finishJob_outcome job exitCode spawnError None),
              progressEvent = None,
              ev_errorCode = errorField (snd (finishJob_outcome job exitCode spawnError None))\<rparr>])"
  by (auto simp add: readResultManifest_def finishJob_resume_sink finishJob_resume_resolved)

text \<open>
  Claim C9 on a missing file, on a file that does not parse, on a file that parses, and
  on a job whose child exits with code 3 without leaving a manifest.
\<close>

theorem manifest_reader_null_on_failure_witness:
  "failingRead (''/tmp/out'' @ ''/result.json'') = Inl ENOENT
   \<and> readResultManifest failingRead malformed ''/tmp/out'' = None
   \<and> exampleFiles (''/tmp/out'' @ ''/result.json'') = Inr [0x7B, 0x7D]
   \<and> malformed [0x7B, 0x7D] = Inl SyntaxError
   \<and> readResultManifest exampleFiles malformed ''/tmp/out'' = None
   \<and> readResultManifest exampleFiles (parsesTo (exampleManifest StatusFailed None)) ''/tmp/out''
       = Some (exampleManifest StatusFailed None)
   \<and> map r_state (resolved (step noProgress (ManifestRead ''job-1'' failingRead malformed)
        (exec noProgress [CallRun exampleRequest ''uuid'', ProcessClose ''job-1'' (Some 3)]
           emptyBridge))) = [Failed]
   \<and> map r_errorCode (resolved (step noProgress (ManifestRead ''job-1'' failingRead malformed)
        (exec noProgress [CallRun exampleRequest ''uuid'', ProcessClose ''job-1'' (Some 3)]
           emptyBridge))) = [Some ''E_OUTPUT_UNWRITABLE'']"
proof -
  let ?s = "exec noProgress [CallRun exampleRequest ''uuid'', ProcessClose ''job-1'' (Some 3)]
     (emptyBridge :: unit Bridge)"
  let ?job = "(newJob exampleRequest)\<lparr>runningEmitted := True, timeoutRef := Some 1050,
     settled := True\<rparr>"
  have susp: "take_suspended ''job-1'' (awaiting ?s) = Some ((''job-1'', ?job, Some 3, None), [])"
    by (simp add: run_def requestJobId_def exampleRequest_def newJob_def emitState_def
        emitRunningOnce_def setTimeoutWatcher_def emptyBridge_def KILL_TREE_ESCALATION_MS_def
        finishJob_begin_def Let_def)
  have res: "resolved ?s = []"
    by (simp add: run_def requestJobId_def exampleRequest_def newJob_def emitState_def
        emitRunningOnce_def setTimeoutWatcher_def emptyBridge_def KILL_TREE_ESCALATION_MS_def
        finishJob_begin_def Let_def)
  have out: "finishJob_outcome ?job (Some 3) None None = (Failed, Some ''E_OUTPUT_UNWRITABLE'')"
    by (simp add: finishJob_outcome_def manifestStatus_def manifestErrorCode_def newJob_def
        mapExitCodeToErrorCode_def EXIT_CODE_ERROR_MAP_def)
  have f1: "failingRead (''/tmp/out'' @ ''/result.json'') = Inl ENOENT"
    by (simp add: failingRead_def)
  have f2: "exampleFiles (''/tmp/out'' @ ''/result.json'') = Inr [0x7B, 0x7D]"
    by (simp add: exampleFiles_def)
  have f3: "malformed [0x7B, 0x7D] = Inl SyntaxError"
    by (simp add: malformed_def)
  have f4: "parsesTo (exampleManifest StatusFailed None) [0x7B, 0x7D]
      = Inr (Some (exampleManifest StatusFailed None))"
    by (simp add: parsesTo_def)
  have dir: "outputDir ?job = ''/tmp/out''"
    by (simp add: newJob_def exampleRequest_def)
  note a = manifest_reader_null_on_failure [of failingRead "''/tmp/out''" malformed "''job-1''" ?s noProgress]
  note b = manifest_reader_null_on_failure [of exampleFiles "''/tmp/out''" malformed "''job-1''" ?s noProgress]
  note c = manifest_reader_null_on_failure [of exampleFiles "''/tmp/out''"
      "parsesTo (exampleManifest StatusFailed None)" "''job-1''" ?s noProgress]
  have r1: "readResultManifest failingRead malformed ''/tmp/out'' = None"
    using a f1 by blast
  have r2: "readResultManifest exampleFiles malformed ''/tmp/out'' = None"
    using b f2 f3 by blast
  have r3: "readResultManifest exampleFiles (parsesTo (exampleManifest StatusFailed None)) ''/tmp/out''
       = Some (exampleManifest StatusFailed None)"
    using c f2 f4 by blast
  have r4: "resolved (step noProgress (ManifestRead ''job-1'' failingRead malformed) ?s)
     = resolved ?s @ [\<lparr>r_jobId = ''job-1'',
              r_state = fst (finishJob_outcome ?job (Some 3) None None),
              r_exitCode = Some 3,
              r_errorCode = snd (finishJob_outcome ?job (Some 3) None None),
              r_manifest = None\<rparr>]"
    using a susp r1 dir by metis
  show ?thesis
    using f1 f2 f3 r1 r2 r3 by (simp add: r4 res out del: step.simps exec.simps)
qed

section \<open>Exactly-once settlement\<close>

lemma forward_lines_eq:
  "forward_lines parse jobId lines s = s\<lparr>sink := sink s @ progressEvents parse jobId lines\<rparr>"
proof (induction lines arbitrary: s)
  case Nil
  then show ?case by (simp add: progressEvents_def List.map_filter_simps)
next
  case (Cons line lines)
  show ?case
    by (simp add: Cons.IH progressEvents_def List.map_filter_simps lineEvent_def emitState_def
        Let_def split: option.splits)
qed

lemma progressEvents_not_terminal [simp]:
  "filter (terminalFor j) (progressEvents parse jobId lines) = []"
  by (simp add: progressEvents_def terminalFor_def filter_empty_conv)

lemma progressEvents_not_bare [simp]:
  "filter (bareRunning j) (progressEvents parse jobId lines) = []"
  by (simp add: progressEvents_def bareRunning_def filter_empty_conv)

lemma obs_cancel [simp]: "obs j (snd (cancel j' s)) = obs j s"
  by (simp add: obs_def cancel_def requestKillTree_def split: option.splits)

lemma obs_timerFires [simp]: "obs j (timerFires j' s) = obs j s"
  by (simp add: obs_def timerFires_def timeoutCallback_def requestKillTree_def split: option.splits)

lemma obs_killTreeFinally [simp]: "obs j (killTreeFinally j' s) = obs j s"
  by (simp add: obs_def killTreeFinally_def split: option.splits)

lemma obs_emitRunningOnce [simp]: "obs j (emitRunningOnce j' s) = obs j s"
  by (simp add: obs_def emitRunningOnce_def emitState_def terminalFor_def split: option.splits)

lemma obs_consumeStdout [simp]: "obs j (consumeStdout parse j' chunk s) = obs j s"
  by (simp add: obs_def consumeStdout_def forward_lines_eq Let_def split: option.splits)

lemma obs_run_other:
  "requestJobId request uuid \<noteq> j \<Longrightarrow> obs j (snd (run request uuid s)) = obs j s"
  by (simp add: obs_def run_def setTimeoutWatcher_def emitRunningOnce_def emitState_def
      terminalFor_def Let_def split: option.splits)

lemma obs_run_self:
  "requestJobId request uuid = j \<Longrightarrow>
   obs j (snd (run request uuid s)) = (Some False, snd (obs j s))"
  by (simp add: obs_def run_def setTimeoutWatcher_def emitRunningOnce_def emitState_def
      terminalFor_def newJob_def Let_def split: option.splits)

lemma obs_finishJob_begin:
  "obs j (finishJob_begin j' exitCode spawnError s) =
     (if j' = j \<and> fst (obs j s) = Some False
      then (Some True, fst (snd (obs j s)), fst (snd (snd (obs j s))), Suc (snd (snd (snd (obs j s)))))
      else obs j s)"
  by (auto simp add: obs_def finishJob_begin_def suspendedFor_def Let_def split: option.splits)

lemma take_suspended_None:
  "(take_suspended j ks = None) = (filter (suspendedFor j) ks = [])"
  by (induction ks) (auto simp add: suspendedFor_def split: option.splits)

lemma take_suspended_Some:
  "take_suspended j ks = Some (k, rest) \<Longrightarrow>
   fst k = j \<and> length (filter (suspendedFor j) ks) = Suc (length (filter (suspendedFor j) rest))
   \<and> (\<forall>j'. j' \<noteq> j \<longrightarrow> filter (suspendedFor j') rest = filter (suspendedFor j') ks)"
proof (induction ks arbitrary: k rest)
  case Nil
  then show ?case by simp
next
  case (Cons a ks)
  show ?case
  proof (cases "fst a = j")
    case True
    with Cons.prems show ?thesis by (auto simp add: suspendedFor_def)
  next
    case False
    with Cons.prems obtain rest' where t: "take_suspended j ks = Some (k, rest')" and r: "rest = a # rest'"
      by (auto split: option.splits)
    from Cons.IH [OF t] False r show ?thesis by (auto simp add: suspendedFor_def)
  qed
qed

lemma obs_finishJob_resume:
  "obs j (finishJob_resume j' activeJob exitCode spawnError m s) =
     (if j' = j
      then (None, Suc (fst (snd (obs j s))), Suc (fst (snd (snd (obs j s)))), snd (snd (snd (obs j s))))
      else obs j s)"
  by (auto simp add: obs_def finishJob_resume_def emitState_def terminalFor_def resultFor_def
      finishJob_outcome_def Let_def)

lemma obs_manifestRead:
  "obs j (step parse (ManifestRead j' readFile parseManifest) s) =
     (if j' = j \<and> 0 < snd (snd (snd (obs j s)))
      then (None, Suc (fst (snd (obs j s))), Suc (fst (snd (snd (obs j s)))),
            snd (snd (snd (obs j s))) - 1)
      else obs j s)"
proof (cases "take_suspended j' (awaiting s)")
  case None
  then show ?thesis
    using take_suspended_None [of j' "awaiting s"] by (auto simp add: obs_def)
next
  case (Some a)
  obtain j'' job exitCode spawnError rest where a: "a = ((j'', job, exitCode, spawnError), rest)"
    by (metis prod.exhaust)
  from take_suspended_Some [of j' "awaiting s" "(j'', job, exitCode, spawnError)" rest] Some a
  have k: "j'' = j'"
    and len: "length (filter (suspendedFor j') (awaiting s)) = Suc (length (filter (suspendedFor j') rest))"
    and other: "\<And>x. x \<noteq> j' \<Longrightarrow> filter (suspendedFor x) rest = filter (suspendedFor x) (awaiting s)"
    by auto
  have st: "step parse (ManifestRead j' readFile parseManifest) s =
      finishJob_resume j' job exitCode spawnError
        (readResultManifest readFile parseManifest (outputDir job)) (s\<lparr>awaiting := rest\<rparr>)"
    using Some a k by simp
  have mid: "obs j (s\<lparr>awaiting := rest\<rparr>) =
     (if j' = j then (fst (obs j s), fst (snd (obs j s)), fst (snd (snd (obs j s))),
                     snd (snd (snd (obs j s))) - 1)
      else obs j s)"
    using len other by (auto simp add: obs_def)
  have pos: "j' = j \<Longrightarrow> 0 < snd (snd (snd (obs j s)))"
    using len by (simp add: obs_def)
  have "obs j (step parse (ManifestRead j' readFile parseManifest) s) =
      (if j' = j
       then (None, Suc (fst (snd (obs j (s\<lparr>awaiting := rest\<rparr>)))),
             Suc (fst (snd (snd (obs j (s\<lparr>awaiting := rest\<rparr>))))),
             snd (snd (snd (obs j (s\<lparr>awaiting := rest\<rparr>)))))
       else obs j (s\<lparr>awaiting := rest\<rparr>))"
    by (simp only: st obs_finishJob_resume)
  also have "\<dots> =
     (if j' = j \<and> 0 < snd (snd (snd (obs j s)))
      then (None, Suc (fst (snd (obs j s))), Suc (fst (snd (snd (obs j s)))),
            snd (snd (snd (obs j s))) - 1)
      else obs j s)"
    using pos by (auto simp add: mid)
  finally show ?thesis .
qed

lemma step_stage:
  assumes "stageInv j t0 r0 n s" and "\<not> triggerRuns j t"
  shows "stageInv j t0 r0 (advance j n t) (step parse t s)"
proof (cases t)
  case (CallRun request uuid)
  with assms show ?thesis by (simp add: stageInv_def obs_run_other)
next
  case (ManifestRead j' readFile parseManifest)
  with assms show ?thesis by (auto simp add: stageInv_def obs_manifestRead simp del: step.simps)
qed (use assms in \<open>auto simp add: stageInv_def obs_finishJob_begin\<close>)

lemma exec_stage:
  assumes "stageInv j t0 r0 n s" and "\<forall>t\<in>set ts. \<not> triggerRuns j t"
  shows "stageInv j t0 r0 (foldl (advance j) n ts) (exec parse ts s)"
  using assms
proof (induction ts arbitrary: n s)
  case Nil
  then show ?case by simp
next
  case (Cons t ts)
  from Cons.prems have "stageInv j t0 r0 (advance j n t) (step parse t s)"
    by (simp add: step_stage)
  from Cons.IH [OF this] Cons.prems show ?case by simp
qed

lemma advance_from_3 [simp]: "foldl (advance j) 3 ts = 3"
proof (induction ts)
  case Nil
  show ?case by simp
next
  case (Cons t ts)
  have "advance j 3 t = 3" by (cases t) simp_all
  with Cons show ?case by simp
qed

lemma advance_from_2: "foldl (advance j) 2 ts = (if list_ex (isRead j) ts then 3 else 2)"
proof (induction ts)
  case Nil
  show ?case by simp
next
  case (Cons t ts)
  then show ?case by (cases t) simp_all
qed

lemma advance_from_1:
  "foldl (advance j) 1 ts =
     (if closesThenReads j ts then 3 else if list_ex (isExit j) ts then 2 else 1)"
proof (induction ts)
  case Nil
  show ?case by simp
next
  case (Cons t ts)
  then show ?case by (cases t) (simp_all add: advance_from_2)
qed


lemma isSettled_obs: "isSettled j s = (fst (obs j s) = Some True)"
  by (simp add: isSettled_def obs_def split: option.splits)

lemma stageInv_settled: "stageInv j t0 r0 n s \<Longrightarrow> isSettled j s = (n = 2)"
  by (auto simp add: stageInv_def isSettled_obs)

lemma risingEdges_states:
  "risingEdges P (a # states parse ts b) =
     (if \<not> P a \<and> P b then 1 else 0) + risingEdges P (states parse ts b)"
  by (cases ts) simp_all

lemma advance_cases:
  "advance j n t = (if n = 1 \<and> isExit j t then 2 else if n = 2 \<and> isRead j t then 3 else n)"
  by (cases t) auto

lemma edges_stage:
  assumes "stageInv j t0 r0 n s" and "\<forall>t\<in>set ts. \<not> triggerRuns j t"
  shows "risingEdges (isSettled j) (states parse ts s) =
     (if n = 1 \<and> list_ex (isExit j) ts then 1 else 0)"
  using assms
proof (induction ts arbitrary: n s)
  case Nil
  then show ?case by simp
next
  case (Cons t ts)
  from Cons.prems have next_inv: "stageInv j t0 r0 (advance j n t) (step parse t s)"
    by (simp add: step_stage)
  have here: "isSettled j s = (n = 2)"
    using Cons.prems(1) by (rule stageInv_settled)
  have there: "isSettled j (step parse t s) = (advance j n t = 2)"
    using next_inv by (rule stageInv_settled)
  have rest: "risingEdges (isSettled j) (states parse ts (step parse t s)) =
     (if advance j n t = 1 \<and> list_ex (isExit j) ts then 1 else 0)"
    using Cons.IH [OF next_inv] Cons.prems(2) by simp
  have "n = 1 \<or> n = 2 \<or> n = 3"
    using Cons.prems(1) by (auto simp add: stageInv_def)
  then show ?case
    by (auto simp add: risingEdges_states here there rest advance_cases simp del: step.simps)
qed

lemma run_stage:
  assumes "filter (suspendedFor j) (awaiting s0) = []" and "requestJobId request uuid = j"
  shows "stageInv j (length (filter (terminalFor j) (sink s0)))
     (length (filter (resultFor j) (resolved s0))) 1 (snd (run request uuid s0))"
  using assms by (simp add: stageInv_def obs_run_self) (simp add: obs_def)

text \<open>
  Claim C4: a job is run on a bridge that has no suspended \<open>finishJob\<close> for its id, and
  any callbacks follow, in any order and number (cancel calls, the timeout timer, ends
  of terminator runs, output chunks, \<open>error\<close> and \<open>close\<close> events, manifest reads, runs
  of other jobs), the job id not being run anew. Then the event sink receives one
  terminal event for the job and its promise is resolved once, both exactly when the
  child has closed or failed to spawn and the manifest read of that \<open>finishJob\<close> has
  ended, and never more; the \<open>settled\<close> flag of the job goes from false to true once, at
  the first \<open>close\<close> or \<open>error\<close> event, and never again.
\<close>

theorem exactly_once_settlement:
  assumes "filter (suspendedFor j) (awaiting s0) = []"
    and "requestJobId request uuid = j"
    and "\<forall>t\<in>set ts. \<not> triggerRuns j t"
  shows "length (filter (terminalFor j) (sink (exec parse ts (snd (run request uuid s0)))))
       = length (filter (terminalFor j) (sink s0)) + (if closesThenReads j ts then 1 else 0)
   \<and> length (filter (resultFor j) (resolved (exec parse ts (snd (run request uuid s0)))))
       = length (filter (resultFor j) (resolved s0)) + (if closesThenReads j ts then 1 else 0)
   \<and> risingEdges (isSettled j) (states parse ts (snd (run request uuid s0)))
       = (if list_ex (isExit j) ts then 1 else 0)"
proof -
  let ?t0 = "length (filter (terminalFor j) (sink s0))"
  let ?r0 = "length (filter (resultFor j) (resolved s0))"
  let ?s1 = "snd (run request uuid s0)"
  have start: "stageInv j ?t0 ?r0 1 ?s1"
    using assms(1,2) by (rule run_stage)
  have fin: "stageInv j ?t0 ?r0 (foldl (advance j) 1 ts) (exec parse ts ?s1)"
    using start assms(3) by (rule exec_stage)
  have three: "(foldl (advance j) 1 ts = 3) = closesThenReads j ts"
    by (simp only: advance_from_1) simp
  have counts: "length (filter (terminalFor j) (sink (exec parse ts ?s1)))
        = ?t0 + (if closesThenReads j ts then 1 else 0)
      \<and> length (filter (resultFor j) (resolved (exec parse ts ?s1)))
        = ?r0 + (if closesThenReads j ts then 1 else 0)"
    using fin three by (auto simp add: stageInv_def obs_def)
  have edges: "risingEdges (isSettled j) (states parse ts ?s1)
       = (if list_ex (isExit j) ts then 1 else 0)"
    using edges_stage [OF start assms(3)] by simp
  from counts edges show ?thesis by simp
qed

text \<open>
  Claim C4 on a run with three effective or late cancel calls, the timeout timer, an
  \<open>error\<close> event followed by two \<open>close\<close> events, and two manifest reads.
\<close>

theorem exactly_once_settlement_witness:
  "closesThenReads ''job-1'' exampleTriggers
   \<and> length (filter (terminalFor ''job-1'')
        (sink (exec noProgress exampleTriggers (snd (run exampleRequest ''uuid'' emptyBridge))))) = 1
   \<and> length (filter (resultFor ''job-1'')
        (resolved (exec noProgress exampleTriggers (snd (run exampleRequest ''uuid'' emptyBridge))))) = 1
   \<and> risingEdges (isSettled ''job-1'')
        (states noProgress exampleTriggers (snd (run exampleRequest ''uuid'' emptyBridge))) = 1"
proof -
  have h1: "filter (suspendedFor ''job-1'') (awaiting (emptyBridge :: unit Bridge)) = []"
    by (simp add: emptyBridge_def)
  have h2: "requestJobId exampleRequest ''uuid'' = ''job-1''"
    by (simp add: requestJobId_def exampleRequest_def)
  have h3: "\<forall>t\<in>set exampleTriggers. \<not> triggerRuns ''job-1'' t"
    by (simp add: exampleTriggers_def)
  have c: "closesThenReads ''job-1'' exampleTriggers"
    by (simp add: exampleTriggers_def)
  have e: "list_ex (isExit ''job-1'') exampleTriggers"
    by (simp add: exampleTriggers_def)
  have z: "sink (emptyBridge :: unit Bridge) = []" "resolved (emptyBridge :: unit Bridge) = []"
    by (simp_all add: emptyBridge_def)
  show ?thesis
    using exactly_once_settlement [OF h1 h2 h3, of noProgress] c e by (simp add: z)
qed

text \<open>
  The record a suspended \<open>finishJob\<close> holds is the one in the map, and it is stored
  when the call suspends. No later callback changes what the call reads of it: while a
  settled record is in the map, its \<open>requestedCancel\<close>, \<open>timedOut\<close> and \<open>outputDir\<close>
  stay as they are, until the record leaves the map.
\<close>

lemma settled_record_frozen:
  assumes "activeJobs s j = Some job" and "settled job" and "\<not> triggerRuns j t"
  shows "activeJobs (step parse t s) j = None
    \<or> (\<exists>job'. activeJobs (step parse t s) j = Some job' \<and> settled job'
          \<and> requestedCancel job' = requestedCancel job \<and> timedOut job' = timedOut job
          \<and> outputDir job' = outputDir job)"
proof (cases t)
  case (CallRun request uuid)
  with assms show ?thesis
    by (auto simp add: run_def setTimeoutWatcher_def emitRunningOnce_def emitState_def Let_def
        split: option.splits)
next
  case (CallCancel j')
  with assms show ?thesis
    by (auto simp add: cancel_def requestKillTree_def split: option.splits)
next
  case (TimerFires j')
  with assms show ?thesis
    by (auto simp add: timerFires_def timeoutCallback_def requestKillTree_def split: option.splits)
next
  case (KillTreeDone j')
  with assms show ?thesis
    by (auto simp add: killTreeFinally_def split: option.splits)
next
  case (StdoutData j' chunk)
  with assms show ?thesis
    by (auto simp add: consumeStdout_def forward_lines_eq emitRunningOnce_def emitState_def
        Let_def split: option.splits)
next
  case (ProcessError j' err)
  with assms show ?thesis
    by (auto simp add: finishJob_begin_def Let_def split: option.splits)
next
  case (ProcessClose j' exitCode)
  with assms show ?thesis
    by (auto simp add: finishJob_begin_def Let_def split: option.splits)
next
  case (ManifestRead j' readFile parseManifest)
  with assms show ?thesis
    by (auto simp add: finishJob_resume_def emitState_def Let_def split: option.splits)
qed

section \<open>The queued and running events\<close>

lemma outcome_not_running:
  "fst (finishJob_outcome activeJob exitCode spawnError m) \<noteq> Running"
  by (simp add: finishJob_outcome_def)

lemma outcome_not_queued:
  "fst (finishJob_outcome activeJob exitCode spawnError m) \<noteq> Queued"
  by (simp add: finishJob_outcome_def)

lemma step_running:
  assumes "runningDone j s" and "\<not> triggerRuns j t"
  shows "runningDone j (step parse t s)
    \<and> (\<exists>rest. sink (step parse t s) = sink s @ rest \<and> filter (bareRunning j) rest = [])"
proof (cases t)
  case (CallRun request uuid)
  with assms show ?thesis
    by (auto simp add: runningDone_def run_def setTimeoutWatcher_def emitRunningOnce_def
        emitState_def bareRunning_def newJob_def Let_def split: option.splits)
next
  case (CallCancel j')
  with assms show ?thesis
    by (auto simp add: runningDone_def cancel_def requestKillTree_def split: option.splits)
next
  case (TimerFires j')
  with assms show ?thesis
    by (auto simp add: runningDone_def timerFires_def timeoutCallback_def requestKillTree_def
        split: option.splits)
next
  case (KillTreeDone j')
  with assms show ?thesis
    by (auto simp add: runningDone_def killTreeFinally_def split: option.splits)
next
  case (StdoutData j' chunk)
  with assms show ?thesis
    by (auto simp add: runningDone_def consumeStdout_def forward_lines_eq emitRunningOnce_def
        emitState_def bareRunning_def Let_def split: option.splits)
next
  case (ProcessError j' err)
  with assms show ?thesis
    by (auto simp add: runningDone_def finishJob_begin_def Let_def split: option.splits)
next
  case (ProcessClose j' exitCode)
  with assms show ?thesis
    by (auto simp add: runningDone_def finishJob_begin_def Let_def split: option.splits)
next
  case (ManifestRead j' readFile parseManifest)
  show ?thesis
  proof (cases "take_suspended j' (awaiting s)")
    case None
    with ManifestRead assms show ?thesis by simp
  next
    case (Some a)
    obtain j'' job exitCode spawnError rest where a: "a = ((j'', job, exitCode, spawnError), rest)"
      by (metis prod.exhaust)
    have st: "step parse t s = finishJob_resume j'' job exitCode spawnError
        (readResultManifest readFile parseManifest (outputDir job)) (s\<lparr>awaiting := rest\<rparr>)"
      using ManifestRead Some a by simp
    have kept: "runningDone j (step parse t s)"
      using assms(1) unfolding st
      by (simp add: runningDone_def finishJob_resume_def emitState_def Let_def)
    have grows: "\<exists>rest. sink (step parse t s) = sink s @ rest \<and> filter (bareRunning j) rest = []"
      unfolding st finishJob_resume_sink
      by (simp add: bareRunning_def outcome_not_running)
    from kept grows show ?thesis by simp
  qed
qed

lemma exec_running:
  assumes "runningDone j s" and "\<forall>t\<in>set ts. \<not> triggerRuns j t"
  shows "\<exists>rest. sink (exec parse ts s) = sink s @ rest \<and> filter (bareRunning j) rest = []"
  using assms
proof (induction ts arbitrary: s)
  case Nil
  then show ?case by simp
next
  case (Cons t ts)
  from Cons.prems step_running [of j s t parse]
  obtain r1 where d: "runningDone j (step parse t s)"
    and s1: "sink (step parse t s) = sink s @ r1" and f1: "filter (bareRunning j) r1 = []"
    by auto
  from Cons.IH [OF d] Cons.prems(2)
  obtain r2 where s2: "sink (exec parse ts (step parse t s)) = sink (step parse t s) @ r2"
    and f2: "filter (bareRunning j) r2 = []"
    by auto
  have "sink (exec parse (t # ts) s) = sink s @ (r1 @ r2)"
    using s1 s2 by simp
  moreover have "filter (bareRunning j) (r1 @ r2) = []"
    using f1 f2 by simp
  ultimately show ?case by blast
qed

lemma run_sink:
  "sink (snd (run request uuid s)) =
     sink s @ [\<lparr>ev_jobId = requestJobId request uuid, ev_state = Queued, progressEvent = None,
                 ev_errorCode = Undefined\<rparr>,
               \<lparr>ev_jobId = requestJobId request uuid, ev_state = Running, progressEvent = None,
                 ev_errorCode = Undefined\<rparr>]"
  by (simp add: run_def setTimeoutWatcher_def emitRunningOnce_def emitState_def newJob_def
      Let_def split: option.splits)

lemma run_runningDone: "runningDone (requestJobId request uuid) (snd (run request uuid s))"
  by (simp add: runningDone_def run_def setTimeoutWatcher_def emitRunningOnce_def emitState_def
      newJob_def Let_def split: option.splits)

text \<open>
  Claim C10: \<open>run\<close> itself hands the queued event and then the running event without a
  progress payload to the sink, before any callback; whatever callbacks follow (any
  number of output chunks among them, the job id not being run anew), the sink only
  grows and receives no further running event without a progress payload for the job.
\<close>

theorem queued_then_running_once:
  "sink (snd (run request uuid s)) =
     sink s @ [\<lparr>ev_jobId = requestJobId request uuid, ev_state = Queued, progressEvent = None,
                 ev_errorCode = Undefined\<rparr>,
               \<lparr>ev_jobId = requestJobId request uuid, ev_state = Running, progressEvent = None,
                 ev_errorCode = Undefined\<rparr>]
   \<and> ((\<forall>t\<in>set ts. \<not> triggerRuns (requestJobId request uuid) t) \<longrightarrow>
        (\<exists>rest. sink (exec parse ts (snd (run request uuid s)))
                  = sink (snd (run request uuid s)) @ rest
               \<and> filter (bareRunning (requestJobId request uuid)) rest = []))"
  using exec_running [OF run_runningDone, of ts request uuid parse s]
  by (simp only: run_sink) simp

text \<open>
  Claim C10 on a job that receives four output chunks: the sink starts with queued and
  running, and holds one running event without a payload for the job at the end.
\<close>

theorem queued_then_running_once_witness:
  "map ev_state (sink (snd (run exampleRequest ''uuid'' (emptyBridge :: jsstring Bridge))))
     = [Queued, Running]
   \<and> length (filter (bareRunning ''job-1'')
        (sink (exec parseStringLiteral exampleOutput (snd (run exampleRequest ''uuid'' emptyBridge)))))
     = 1"
proof -
  let ?s1 = "snd (run exampleRequest ''uuid'' (emptyBridge :: jsstring Bridge))"
  have id: "requestJobId exampleRequest ''uuid'' = ''job-1''"
    by (simp add: requestJobId_def exampleRequest_def)
  have h: "\<forall>t\<in>set exampleOutput. \<not> triggerRuns (requestJobId exampleRequest ''uuid'') t"
    by (simp add: exampleOutput_def)
  note inst = queued_then_running_once [of exampleRequest "''uuid''" "emptyBridge :: jsstring Bridge"
      exampleOutput parseStringLiteral]
  from inst have first: "sink ?s1 = sink (emptyBridge :: jsstring Bridge) @
      [\<lparr>ev_jobId = requestJobId exampleRequest ''uuid'', ev_state = Queued, progressEvent = None,
         ev_errorCode = Undefined\<rparr>,
       \<lparr>ev_jobId = requestJobId exampleRequest ''uuid'', ev_state = Running, progressEvent = None,
         ev_errorCode = Undefined\<rparr>]"
    by blast
  from inst h obtain rest where
    r: "sink (exec parseStringLiteral exampleOutput ?s1) = sink ?s1 @ rest"
    and f: "filter (bareRunning (requestJobId exampleRequest ''uuid'')) rest = []"
    by blast
  have e: "sink (emptyBridge :: jsstring Bridge) = []"
    by (simp add: emptyBridge_def)
  show ?thesis
    using f by (simp add: r first e id bareRunning_def)
qed

section \<open>The JSON-Lines decoder across chunk boundaries\<close>

lemma split_lines_nonempty [simp]: "split_lines cur t \<noteq> []"
  by (induction cur t rule: split_lines.induct) simp_all

lemma split_lines_prefix_gen:
  "split_lines (a @ cur) t = (a @ hd (split_lines cur t)) # tl (split_lines cur t)"
  by (induction cur t rule: split_lines.induct) simp_all

lemma split_lines_prefix:
  "split_lines cur t = (cur @ hd (split_lines [] t)) # tl (split_lines [] t)"
  using split_lines_prefix_gen [of cur "[]" t] by simp

lemma split_lines_single_gen: "split_lines cur t = [q] \<Longrightarrow> q = cur @ t"
  by (induction cur t rule: split_lines.induct) (auto split: if_splits)

lemma split_lines_LF: "split_lines [] (LF # t) = [] # split_lines [] t"
  by (cases t) (simp_all add: LF_def CR_def)

lemma split_lines_CRLF: "split_lines [] (CR # LF # t) = [] # split_lines [] t"
  by simp

lemma split_lines_other:
  assumes "c \<noteq> LF" and "\<not> (c = CR \<and> t \<noteq> [] \<and> hd t = LF)"
  shows "split_lines [] (c # t) = (c # hd (split_lines [] t)) # tl (split_lines [] t)"
proof (cases t)
  case Nil
  with assms show ?thesis by simp
next
  case (Cons d cs)
  with assms have "split_lines [] (c # t) = split_lines [c] t" by auto
  then show ?thesis using split_lines_prefix [of "[c]" t] by simp
qed

lemma split_lines_append:
  "split_lines [] (x @ y) =
     butlast (split_lines [] x) @ split_lines [] (last (split_lines [] x) @ y)"
proof (induction x arbitrary: y rule: length_induct)
  case (1 x)
  show ?case
  proof (cases "\<exists>q. split_lines [] x = [q]")
    case True
    then obtain q where q: "split_lines [] x = [q]" by blast
    then have "q = x" using split_lines_single_gen [of "[]" x q] by simp
    with q show ?thesis by simp
  next
    case many: False
    show ?thesis
    proof (cases x)
      case Nil
      with many show ?thesis by simp
    next
      case (Cons c t)
      have ih: "split_lines [] (t @ y) =
          butlast (split_lines [] t) @ split_lines [] (last (split_lines [] t) @ y)"
        using 1 Cons by simp
      show ?thesis
      proof (cases "c = LF")
        case True
        then show ?thesis
          using Cons ih by (simp add: split_lines_LF)
      next
        case notLF: False
        show ?thesis
        proof (cases "c = CR \<and> t \<noteq> [] \<and> hd t = LF")
          case True
          then obtain u where t: "t = LF # u" by (cases t) auto
          have ihu: "split_lines [] (u @ y) =
              butlast (split_lines [] u) @ split_lines [] (last (split_lines [] u) @ y)"
            using 1 Cons t by simp
          show ?thesis
            using True Cons t ihu by simp
        next
          case False
          have xs: "split_lines [] x = (c # hd (split_lines [] t)) # tl (split_lines [] t)"
            using Cons notLF False by (simp add: split_lines_other)
          have "\<not> (c = CR \<and> t @ y \<noteq> [] \<and> hd (t @ y) = LF)"
          proof (cases t)
            case Nil
            with xs many show ?thesis by simp
          next
            case (Cons d cs)
            with False show ?thesis by simp
          qed
          then have xy: "split_lines [] (x @ y) =
              (c # hd (split_lines [] (t @ y))) # tl (split_lines [] (t @ y))"
            using Cons notLF split_lines_other [of c "t @ y"] by simp
          have tl_ne: "tl (split_lines [] t) \<noteq> []"
            using many xs by auto
          obtain p ps where pps: "split_lines [] t = p # ps" and ps: "ps \<noteq> []"
            using tl_ne by (cases "split_lines [] t") auto
          show ?thesis
            using ps by (simp add: xy xs ih pps)
        qed
      qed
    qed
  qed
qed


lemma progressEvents_append:
  "progressEvents parse j (xs @ ys) = progressEvents parse j xs @ progressEvents parse j ys"
  by (simp add: progressEvents_def List.map_filter_def)

lemma consumeStdout_effect:
  assumes "activeJobs s j = Some job"
  shows "consumeStdout parse j chunk s =
     s\<lparr>activeJobs := (activeJobs s)(j \<mapsto> job\<lparr>stdoutRemainder :=
          last (split_lines [] (stdoutRemainder job @ chunk_toString chunk))\<rparr>),
       sink := sink s @ progressEvents parse j
          (butlast (split_lines [] (stdoutRemainder job @ chunk_toString chunk)))\<rparr>"
  using assms by (simp add: consumeStdout_def forward_lines_eq Let_def)

lemma consumeStdout_as_text:
  "consumeStdout parse j chunk s = consumeStdout parse j (Text (chunk_toString chunk)) s"
  by (simp add: consumeStdout_def split: option.splits)

lemma consumeStdout_text_append:
  "consumeStdout parse j (Text b) (consumeStdout parse j (Text a) s) =
     consumeStdout parse j (Text (a @ b)) s"
proof (cases "activeJobs s j")
  case None
  then show ?thesis by (simp add: consumeStdout_def)
next
  case (Some job)
  let ?p1 = "split_lines [] (stdoutRemainder job @ a)"
  let ?p2 = "split_lines [] (last ?p1 @ b)"
  have whole: "split_lines [] (stdoutRemainder job @ a @ b) = butlast ?p1 @ ?p2"
    using split_lines_append [of "stdoutRemainder job @ a" b] by simp
  have l: "last (butlast ?p1 @ ?p2) = last ?p2"
    by simp
  have bl: "butlast (butlast ?p1 @ ?p2) = butlast ?p1 @ butlast ?p2"
    by (simp add: butlast_append)
  let ?s1 = "consumeStdout parse j (Text a) s"
  have s1: "?s1 = s\<lparr>activeJobs := (activeJobs s)(j \<mapsto> job\<lparr>stdoutRemainder := last ?p1\<rparr>),
       sink := sink s @ progressEvents parse j (butlast ?p1)\<rparr>"
    using consumeStdout_effect [OF Some, of parse "Text a"] by simp
  have j1: "activeJobs ?s1 j = Some (job\<lparr>stdoutRemainder := last ?p1\<rparr>)"
    by (simp add: s1)
  have left: "consumeStdout parse j (Text b) ?s1 =
      s\<lparr>activeJobs := (activeJobs s)(j \<mapsto> job\<lparr>stdoutRemainder := last ?p2\<rparr>),
        sink := sink s @ progressEvents parse j (butlast ?p1) @ progressEvents parse j (butlast ?p2)\<rparr>"
    by (simp add: consumeStdout_effect [OF j1]) (simp add: s1)
  have right: "consumeStdout parse j (Text (a @ b)) s =
      s\<lparr>activeJobs := (activeJobs s)(j \<mapsto> job\<lparr>stdoutRemainder := last ?p2\<rparr>),
        sink := sink s @ progressEvents parse j (butlast ?p1) @ progressEvents parse j (butlast ?p2)\<rparr>"
    by (simp add: consumeStdout_effect [OF Some] whole l bl progressEvents_append
        del: split_lines.simps)
  from left right show ?thesis by simp
qed

lemma emitRunningOnce_done: "runningDone j s \<Longrightarrow> emitRunningOnce j s = s"
  by (simp add: runningDone_def emitRunningOnce_def split: option.splits)

lemma runningDone_emitRunningOnce: "runningDone j (emitRunningOnce j s)"
  by (simp add: runningDone_def emitRunningOnce_def emitState_def split: option.splits)

lemma runningDone_consumeStdout:
  "runningDone j s \<Longrightarrow> runningDone j (consumeStdout parse j chunk s)"
  by (simp add: runningDone_def consumeStdout_def forward_lines_eq Let_def split: option.splits)

text \<open>
  What does hold for the decoder: delivering chunks one after the other has the effect
  (events, remainder, whole state) of delivering the concatenation of their decoded
  texts at once. For chunks that are strings, and for byte chunks cut between
  characters, that text is the text of the whole stream.
\<close>

lemma stdout_chunks_as_text:
  "exec parse (map (StdoutData j) (c # cs)) s =
     exec parse [StdoutData j (Text (concat (map chunk_toString (c # cs))))] s"
proof (induction cs arbitrary: c s)
  case Nil
  show ?case using consumeStdout_as_text [of parse j c] by simp
next
  case (Cons c' cs)
  let ?s0 = "emitRunningOnce j s"
  let ?s1 = "consumeStdout parse j (Text (chunk_toString c)) ?s0"
  have d: "runningDone j ?s1"
    by (simp add: runningDone_emitRunningOnce runningDone_consumeStdout)
  have "exec parse (map (StdoutData j) (c # c' # cs)) s =
      exec parse (map (StdoutData j) (c' # cs)) (step parse (StdoutData j c) s)"
    by simp
  also have "\<dots> = exec parse [StdoutData j (Text (concat (map chunk_toString (c' # cs))))]
      (step parse (StdoutData j c) s)"
    by (rule Cons.IH)
  also have "\<dots> = consumeStdout parse j (Text (concat (map chunk_toString (c' # cs)))) ?s1"
    using consumeStdout_as_text [of parse j c] emitRunningOnce_done [OF d] by simp
  also have "\<dots> = consumeStdout parse j
      (Text (chunk_toString c @ concat (map chunk_toString (c' # cs)))) ?s0"
    by (rule consumeStdout_text_append)
  also have "\<dots> = exec parse [StdoutData j (Text (concat (map chunk_toString (c # c' # cs))))] s"
    by simp
  finally show ?case .
qed

text \<open>
  Claim C6 fails on the code where a chunk boundary falls inside a multi-byte UTF-8
  character: each \<open>Buffer\<close> is decoded on its own, and both halves become U+FFFD. The
  five bytes 22 C3 A9 22 0A (a JSON string literal holding U+00E9, then a line feed)
  give the progress event U+00E9 as one chunk, and the progress event U+FFFD U+FFFD
  when the chunks are 22 C3 and A9 22 0A.
\<close>

theorem split_character_changes_event:
  "map progressEvent (sink (exec parseStringLiteral wholeCharacter
       (snd (run exampleRequest ''uuid'' emptyBridge)))) = [None, None, Some [0xE9]]
   \<and> map progressEvent (sink (exec parseStringLiteral splitCharacter
       (snd (run exampleRequest ''uuid'' emptyBridge)))) = [None, None, Some [0xFFFD, 0xFFFD]]"
  by (simp add: splitCharacter_def wholeCharacter_def run_def requestJobId_def exampleRequest_def
      newJob_def emitState_def emitRunningOnce_def setTimeoutWatcher_def emptyBridge_def
      KILL_TREE_ESCALATION_MS_def Let_def consumeStdout_def utf8_idle_def utf8_first_def
      utf16_units_def LF_def CR_def trim_def js_space_def parseStringLiteral_def)

end
